theory Spec2Isabelle
  imports Main
begin

section \<open>The persistent Python session of \<open>mcp_python/server.py\<close>\<close>

text \<open>
  The server keeps one dictionary, \<open>global_namespace\<close>, and offers three tools that read
  and change it: \<open>execute_python\<close>, \<open>install_package\<close> and \<open>list_variables\<close>.
  The tools are thin wrappers around facilities of the language runtime (\<open>exec\<close>,
  \<open>eval\<close>, \<open>repr\<close>, \<open>traceback.format_exc\<close>, \<open>subprocess.run\<close>). The runtime is
  not part of the repository, so the tools take it as a parameter: a record of functions.
  Every theorem that quantifies over the runtime holds for whatever the runtime does.
\<close>

subsection \<open>Strings\<close>

text \<open>
  A Python \<open>str\<close> is modelled as a \<open>string\<close>; a \<open>char\<close> stands for a code point below 256.
\<close>

text \<open>\<open>str.isspace\<close> on one character, for the code points below 256.\<close>

definition py_isspace :: "char \<Rightarrow> bool" where
  "py_isspace c =
     (let n = (of_char c :: nat)
      in (9 \<le> n \<and> n \<le> 13) \<or> (28 \<le> n \<and> n \<le> 32) \<or> n = 133 \<or> n = 160)"

text \<open>\<open>s.strip()\<close>: leading and trailing whitespace removed.\<close>

definition strip :: "string \<Rightarrow> string" where
  "strip s = rev (dropWhile py_isspace (rev (dropWhile py_isspace s)))"

text \<open>
  \<open>s.split(sep)\<close> for a one-character separator: the pieces between the separators,
  always at least one piece.
\<close>

fun split :: "char \<Rightarrow> string \<Rightarrow> string list" where
  "split sep [] = [[]]"
| "split sep (c # cs) =
     (if c = sep then [] # split sep cs
      else (case split sep cs of
              [] \<Rightarrow> [[c]]
            | p # ps \<Rightarrow> (c # p) # ps))"

text \<open>\<open>sep.join(parts)\<close>.\<close>

fun join :: "string \<Rightarrow> string list \<Rightarrow> string" where
  "join sep [] = []"
| "join sep [p] = p"
| "join sep (p # q # ps) = p @ sep @ join sep (q # ps)"

text \<open>\<open>code.strip().split('\n')[-1]\<close>; the list of pieces is never empty.\<close>

definition last_line :: "string \<Rightarrow> string" where
  "last_line code = last (split (CHR ''\<newline>'') (strip code))"

text \<open>\<open>s.startswith(c)\<close> for a one-character prefix.\<close>

definition startswith :: "string \<Rightarrow> char \<Rightarrow> bool" where
  "startswith s c = (case s of [] \<Rightarrow> False | d # _ \<Rightarrow> d = c)"

subsection \<open>The package-name pattern\<close>

definition in_range :: "char \<Rightarrow> char \<Rightarrow> char \<Rightarrow> bool" where
  "in_range lo hi c = ((of_char lo :: nat) \<le> of_char c \<and> (of_char c :: nat) \<le> of_char hi)"

text \<open>The character class \<open>[A-Za-z0-9]\<close>.\<close>

definition alnum :: "char \<Rightarrow> bool" where
  "alnum c = (in_range (CHR ''A'') (CHR ''Z'') c \<or> in_range (CHR ''a'') (CHR ''z'') c
              \<or> in_range (CHR ''0'') (CHR ''9'') c)"

text \<open>The character class \<open>[A-Za-z0-9._-]\<close>.\<close>

definition pkg_char :: "char \<Rightarrow> bool" where
  "pkg_char c = (alnum c \<or> c = CHR ''.'' \<or> c = CHR ''_'' \<or> c = CHR ''-'')"

text \<open>
  \<open>re.match("^[A-Za-z0-9][A-Za-z0-9._-]*$", package)\<close> succeeds. Without the
  \<open>MULTILINE\<close> flag, \<open>^\<close> matches at the start of the string only, and \<open>$\<close> matches at
  the end of the string and also just before a newline that is the last character of the
  string. So the star must consume the rest of the string, or all of it but a final newline.
\<close>

definition re_match_package :: "string \<Rightarrow> bool" where
  "re_match_package package =
     (case package of
        [] \<Rightarrow> False
      | c # cs \<Rightarrow>
          alnum c \<and>
          (list_all pkg_char cs \<or>
           (cs \<noteq> [] \<and> last cs = CHR ''\<newline>'' \<and> list_all pkg_char (butlast cs))))"

text \<open>
  The pattern as the specification words it: one alphanumeric character followed by any
  run of alphanumerics, dot, underscore and hyphen, and nothing else.
\<close>

definition spec_package_pattern :: "string \<Rightarrow> bool" where
  "spec_package_pattern package =
     (case package of [] \<Rightarrow> False | c # cs \<Rightarrow> alnum c \<and> list_all pkg_char cs)"

subsection \<open>Exceptions\<close>

text \<open>
  The handlers of the source tell exceptions apart by class. A constructor stands for
  the class and its subclasses (\<open>IndentationError\<close> is a \<open>SyntaxError\<close>,
  \<open>ModuleNotFoundError\<close> an \<open>ImportError\<close>) and carries the text the handlers read:
  the message \<open>str(e)\<close>, and for \<open>CalledProcessError\<close> the attribute \<open>e.stderr\<close>.
  \<open>OtherException\<close> is any other class derived from \<open>Exception\<close> (class name,
  message); \<open>NonException\<close> is a class derived from \<open>BaseException\<close> but not from
  \<open>Exception\<close>: \<open>SystemExit\<close>, \<open>KeyboardInterrupt\<close>, \<open>GeneratorExit\<close>.
\<close>

datatype py_exception =
    SyntaxError string
  | ValueError string
  | NameError string
  | ImportError string
  | CalledProcessError string
  | OtherException string string
  | NonException string string

text \<open>\<open>except Exception\<close> catches it.\<close>

fun is_Exception :: "py_exception \<Rightarrow> bool" where
  "is_Exception (NonException _ _) = False"
| "is_Exception _ = True"

text \<open>\<open>except (SyntaxError, ValueError, NameError)\<close> catches it.\<close>

fun is_fallback_fault :: "py_exception \<Rightarrow> bool" where
  "is_fallback_fault (SyntaxError _) = True"
| "is_fallback_fault (ValueError _) = True"
| "is_fallback_fault (NameError _) = True"
| "is_fallback_fault _ = False"

subsection \<open>The runtime and the state\<close>

text \<open>
  A dictionary keeps its keys in insertion order, so the namespace is an association
  list. \<open>'v\<close> is the type of Python values, \<open>'w\<close> the rest of the process and its
  environment (loaded modules, installed packages, files), which \<open>exec\<close>, \<open>eval\<close> and
  a subprocess may read and change.
\<close>

type_synonym 'v namespace = "(string \<times> 'v) list"

text \<open>\<open>d[k] = v\<close>: an existing key keeps its place, a new key goes to the end.\<close>

fun dict_setitem :: "'k \<Rightarrow> 'v \<Rightarrow> ('k \<times> 'v) list \<Rightarrow> ('k \<times> 'v) list" where
  "dict_setitem k v [] = [(k, v)]"
| "dict_setitem k v ((k', v') # d) =
     (if k' = k then (k, v) # d else (k', v') # dict_setitem k v d)"

text \<open>
  What \<open>exec(code, global_namespace)\<close> inside the two stream redirections leaves
  behind: the namespace and the environment as changed by the code, the text written to
  the two buffers, and the exception that ended the run, if any.
\<close>

record ('v, 'w) exec_result =
  ex_namespace :: "'v namespace"
  ex_world :: 'w
  ex_stdout :: string
  ex_stderr :: string
  ex_raised :: "py_exception option"

text \<open>What \<open>eval(last_line, global_namespace)\<close> leaves behind: a value or an exception.\<close>

record ('v, 'w) eval_result =
  ev_namespace :: "'v namespace"
  ev_world :: 'w
  ev_value :: "py_exception + 'v"

text \<open>The \<open>CompletedProcess\<close> of \<open>subprocess.run\<close>.\<close>

record completed_process =
  returncode :: int
  proc_stdout :: string
  proc_stderr :: string

text \<open>
  The runtime. \<open>rt_builtins\<close> is the value of \<open>__builtins__\<close>. \<open>rt_run\<close> is
  \<open>subprocess.run(args, capture_output=True, text=True, check=True)\<close>, which raises
  (\<open>CalledProcessError\<close> on a non-zero exit status, \<open>FileNotFoundError\<close> when the
  program is missing) or returns the completed process. \<open>rt_repr\<close> is taken to be a
  total function of the value.
\<close>

record ('v, 'w) runtime =
  rt_builtins :: 'v
  rt_exec :: "string \<Rightarrow> 'v namespace \<Rightarrow> 'w \<Rightarrow> ('v, 'w) exec_result"
  rt_eval :: "string \<Rightarrow> 'v namespace \<Rightarrow> 'w \<Rightarrow> ('v, 'w) eval_result"
  rt_repr :: "'v \<Rightarrow> string"
  rt_format_exc :: "py_exception \<Rightarrow> string"
  rt_run :: "string list \<Rightarrow> 'w \<Rightarrow> (py_exception + completed_process) \<times> 'w"

text \<open>A call the server makes into the runtime, recorded in the order of the calls.\<close>

datatype call = Exec string | Eval string | Run "string list"

record ('v, 'w) state =
  global_namespace :: "'v namespace"
  world :: 'w
  calls :: "call list"

text \<open>The module-level initialisation of \<open>global_namespace\<close>.\<close>

definition initial_state :: "('v, 'w) runtime \<Rightarrow> 'w \<Rightarrow> ('v, 'w) state" where
  "initial_state rt w =
     \<lparr>global_namespace = [(''__builtins__'', rt_builtins rt)], world = w, calls = []\<rparr>"

text \<open>\<open>exec(code, global_namespace)\<close>, recorded.\<close>

definition py_exec ::
  "('v, 'w) runtime \<Rightarrow> string \<Rightarrow> ('v, 'w) state \<Rightarrow> ('v, 'w) exec_result \<times> ('v, 'w) state" where
  "py_exec rt code s =
     (let r = rt_exec rt code (global_namespace s) (world s)
      in (r, \<lparr>global_namespace = ex_namespace r, world = ex_world r,
              calls = calls s @ [Exec code]\<rparr>))"

text \<open>\<open>eval(line, global_namespace)\<close>, recorded.\<close>

definition py_eval ::
  "('v, 'w) runtime \<Rightarrow> string \<Rightarrow> ('v, 'w) state \<Rightarrow> (py_exception + 'v) \<times> ('v, 'w) state" where
  "py_eval rt line s =
     (let r = rt_eval rt line (global_namespace s) (world s)
      in (ev_value r, \<lparr>global_namespace = ev_namespace r, world = ev_world r,
                       calls = calls s @ [Eval line]\<rparr>))"

text \<open>\<open>subprocess.run(args, ...)\<close>, recorded.\<close>

definition py_run ::
  "('v, 'w) runtime \<Rightarrow> string list \<Rightarrow> ('v, 'w) state
     \<Rightarrow> (py_exception + completed_process) \<times> ('v, 'w) state" where
  "py_run rt args s =
     (let (r, w) = rt_run rt args (world s)
      in (r, s\<lparr>world := w, calls := calls s @ [Run args]\<rparr>))"

subsection \<open>The tools\<close>

text \<open>
  A tool returns its text (\<open>Inr\<close>), or an exception leaves the tool function (\<open>Inl\<close>),
  together with the state it leaves behind.
\<close>

type_synonym ('v, 'w) tool_result = "(py_exception + string) \<times> ('v, 'w) state"

text \<open>
  The handler \<open>except Exception:\<close> of \<open>execute_python\<close>: an exception that is an
  \<open>Exception\<close> becomes the report, any other leaves the function.
\<close>

definition except_Exception ::
  "('v, 'w) runtime \<Rightarrow> py_exception \<Rightarrow> ('v, 'w) state \<Rightarrow> ('v, 'w) tool_result" where
  "except_Exception rt e s =
     (if is_Exception e
      then (Inr (''Error executing code:\<newline>'' @ rt_format_exc rt e), s)
      else (Inl e, s))"

definition execute_python ::
  "('v, 'w) runtime \<Rightarrow> string \<Rightarrow> bool \<Rightarrow> ('v, 'w) state \<Rightarrow> ('v, 'w) tool_result" where
  "execute_python rt code reset s =
     (if reset then
        (Inr ''Python session reset. All variables cleared.'',
         s\<lparr>global_namespace := dict_setitem ''__builtins__'' (rt_builtins rt) []\<rparr>)
      else
        (let (r, s1) = py_exec rt code s in
         case ex_raised r of
           Some e \<Rightarrow> except_Exception rt e s1
         | None \<Rightarrow>
             (let output = ex_stdout r;
                  errors = ex_stderr r;
                  result0 = [];
                  result1 = (if output \<noteq> [] then result0 @ ''Output:\<newline>'' @ output
                             else result0);
                  result2 = (if errors \<noteq> []
                             then result1 @ ''\<newline>Errors:\<newline>'' @ errors
                             else result1)
              in if output = [] \<and> errors = [] then
                   (case py_eval rt (last_line code) s1 of
                      (Inr last_value, s2) \<Rightarrow> (Inr (''Result: '' @ rt_repr rt last_value), s2)
                    | (Inl e, s2) \<Rightarrow>
                        if is_fallback_fault e
                        then (Inr ''Code executed successfully (no output)'', s2)
                        else except_Exception rt e s2)
                 else (Inr result2, s1))))"

text \<open>
  The handler \<open>except subprocess.CalledProcessError as e:\<close> of \<open>install_package\<close>.
\<close>

definition except_CalledProcessError ::
  "py_exception \<Rightarrow> ('v, 'w) state \<Rightarrow> ('v, 'w) tool_result" where
  "except_CalledProcessError e s =
     (case e of
        CalledProcessError err \<Rightarrow> (Inr (''Failed to install package:\<newline>'' @ err), s)
      | _ \<Rightarrow> (Inl e, s))"

text \<open>
  \<open>ctx.info(...)\<close> is called without \<open>await\<close>: it builds a coroutine that never runs, so
  it has no counterpart here.
\<close>

definition install_package ::
  "('v, 'w) runtime \<Rightarrow> string \<Rightarrow> ('v, 'w) state \<Rightarrow> ('v, 'w) tool_result" where
  "install_package rt package s =
     (if \<not> re_match_package package then (Inr (''Invalid package name: '' @ package), s)
      else
        (case py_run rt [''uv'', ''pip'', ''install'', package] s of
           (Inl e, s1) \<Rightarrow> except_CalledProcessError e s1
         | (Inr process, s1) \<Rightarrow>
             if returncode process \<noteq> 0
             then (Inr (''Failed to install package: '' @ proc_stderr process), s1)
             else
               (let (r, s2) = py_exec rt (''import '' @ hd (split (CHR ''['') package)) s1 in
                case ex_raised r of
                  None \<Rightarrow> (Inr (''Successfully installed and imported '' @ package), s2)
                | Some (ImportError msg) \<Rightarrow>
                    (Inr (''Package installed but import failed: '' @ msg), s2)
                | Some e \<Rightarrow> except_CalledProcessError e s2)))"




subsection \<open>Sequences of calls and what a call raises\<close>

text \<open>Calls of \<open>execute_python\<close> without \<open>reset\<close>, one after the other on the same state.\<close>

fun execute_all :: "('v, 'w) runtime \<Rightarrow> string list \<Rightarrow> ('v, 'w) state \<Rightarrow> ('v, 'w) state" where
  "execute_all rt [] s = s"
| "execute_all rt (code # codes) s = execute_all rt codes (snd (execute_python rt code False s))"

text \<open>
  The exceptions raised while \<open>execute_python\<close> runs the submitted code: by \<open>exec\<close>,
  or else by the \<open>eval\<close> of the last line when \<open>exec\<close> wrote nothing.
\<close>

definition faults :: "('v, 'w) runtime \<Rightarrow> string \<Rightarrow> ('v, 'w) state \<Rightarrow> py_exception list" where
  "faults rt code s =
     (let (r, s1) = py_exec rt code s in
      case ex_raised r of
        Some e \<Rightarrow> [e]
      | None \<Rightarrow>
          if ex_stdout r = [] \<and> ex_stderr r = [] then
            (case fst (py_eval rt (last_line code) s1) of Inl e \<Rightarrow> [e] | Inr _ \<Rightarrow> [])
          else [])"

text \<open>
  The code only binds a simple variable: whatever the namespace, \<open>exec\<close> stores \<open>v\<close>
  under \<open>x\<close>, writes nothing and raises nothing, and the last line is a statement, which
  \<open>eval\<close> refuses to compile.
\<close>

definition binds :: "('v, 'w) runtime \<Rightarrow> string \<Rightarrow> string \<Rightarrow> 'v \<Rightarrow> bool" where
  "binds rt code x v =
     (\<forall>ns w.
        rt_exec rt code ns w =
          \<lparr>ex_namespace = dict_setitem x v ns, ex_world = w, ex_stdout = [], ex_stderr = [],
           ex_raised = None\<rparr> \<and>
        (\<exists>msg. rt_eval rt (last_line code) ns w =
           \<lparr>ev_namespace = ns, ev_world = w, ev_value = Inl (SyntaxError msg)\<rparr>))"

text \<open>
  The code only references the variable \<open>x\<close>: where \<open>x\<close> is bound, \<open>exec\<close> changes and
  writes nothing, and \<open>eval\<close> of the last line gives the value bound to \<open>x\<close>.
\<close>

definition refers :: "('v, 'w) runtime \<Rightarrow> string \<Rightarrow> string \<Rightarrow> bool" where
  "refers rt code x =
     (\<forall>ns w v. map_of ns x = Some v \<longrightarrow>
        rt_exec rt code ns w =
          \<lparr>ex_namespace = ns, ex_world = w, ex_stdout = [], ex_stderr = [], ex_raised = None\<rparr> \<and>
        rt_eval rt (last_line code) ns w =
          \<lparr>ev_namespace = ns, ev_world = w, ev_value = Inr v\<rparr>)"

text \<open>
  The exception raised inside the \<open>try\<close> of \<open>install_package\<close> by \<open>subprocess.run\<close>,
  and the one raised by the \<open>import\<close> that binds the module, if that point was reached.
\<close>

fun is_CalledProcessError :: "py_exception \<Rightarrow> bool" where
  "is_CalledProcessError (CalledProcessError _) = True"
| "is_CalledProcessError _ = False"

fun is_ImportError :: "py_exception \<Rightarrow> bool" where
  "is_ImportError (ImportError _) = True"
| "is_ImportError _ = False"

definition launch_fault ::
  "('v, 'w) runtime \<Rightarrow> string \<Rightarrow> ('v, 'w) state \<Rightarrow> py_exception option" where
  "launch_fault rt package s =
     (if \<not> re_match_package package then None
      else (case fst (py_run rt [''uv'', ''pip'', ''install'', package] s) of
              Inl e \<Rightarrow> Some e
            | Inr _ \<Rightarrow> None))"

definition bind_fault ::
  "('v, 'w) runtime \<Rightarrow> string \<Rightarrow> ('v, 'w) state \<Rightarrow> py_exception option" where
  "bind_fault rt package s =
     (if \<not> re_match_package package then None
      else (case py_run rt [''uv'', ''pip'', ''install'', package] s of
              (Inl e, s1) \<Rightarrow> None
            | (Inr process, s1) \<Rightarrow>
                if returncode process \<noteq> 0 then None
                else ex_raised
                       (fst (py_exec rt (''import '' @ hd (split (CHR ''['') package)) s1))))"


section \<open>A runtime for a fragment of Python\<close>

text \<open>
  To run the tools on concrete code, this section gives a runtime for a small fragment of
  Python; the language itself is not part of the repository. The fragment:
  \<^item> a program is a sequence of lines, each a statement; blank lines are skipped, a line
    that starts with a space is an indentation error;
  \<^item> a variable is a single letter, so that no keyword and no built-in name is a variable;
  \<^item> an atom is a decimal literal or a variable;
  \<^item> an expression is an atom, \<open>[]\<close>, \<open>a + b\<close> on atoms, \<open>x.append(n)\<close> with a literal
    \<open>n\<close>, \<open>x.pop()\<close>, or \<open>print(a)\<close>;
  \<^item> a statement is an expression, an assignment \<open>x = n\<close>, \<open>x = []\<close> or \<open>x = a + b\<close>,
    \<open>raise C\<close> for a variable or one of five exception classes, or \<open>import m\<close>.
  Lists hold integers only and an assignment never copies a reference, so no two names
  share a list and values can be trees. As \<open>exec\<close> compiles the whole program before it runs
  any of it, a line outside the fragment makes the runtime report a syntax error and run
  nothing; this is what Python does for text that is not Python, and it is not what
  Python does for Python outside the fragment. The concrete theorems below only use
  programs of the fragment.
\<close>

datatype val = VInt int | VNone | VList "val list" | VModule string | VBuiltins

text \<open>The environment: whether the program \<open>uv\<close> exists, and the modules that can be imported.\<close>

record mini_world =
  uv_installed :: bool
  modules :: "string list"

subsection \<open>Lexical analysis\<close>

datatype token =
    TName string | TInt string | TPlus | TEq | TDot | TComma
  | TLPar | TRPar | TLBrk | TRBrk | TBad string

definition digit :: "char \<Rightarrow> bool" where
  "digit c = in_range (CHR ''0'') (CHR ''9'') c"

definition word_char :: "char \<Rightarrow> bool" where
  "word_char c = (alnum c \<or> c = CHR ''_'')"

text \<open>
  A maximal run of letters, digits and underscores: a decimal literal (no leading zero
  unless all digits are zero), a name, or neither.
\<close>

definition word :: "string \<Rightarrow> token list" where
  "word w =
     (if w = [] then []
      else if list_all digit w
      then (if hd w = CHR ''0'' \<and> \<not> list_all (\<lambda>c. c = CHR ''0'') w then [TBad w] else [TInt w])
      else if digit (hd w) then [TBad w]
      else [TName w])"

definition symbol :: "char \<Rightarrow> token" where
  "symbol c =
     (if c = CHR ''+'' then TPlus else if c = CHR ''='' then TEq
      else if c = CHR ''.'' then TDot else if c = CHR '','' then TComma
      else if c = CHR ''('' then TLPar else if c = CHR '')'' then TRPar
      else if c = CHR ''['' then TLBrk else if c = CHR '']'' then TRBrk
      else TBad [c])"

text \<open>\<open>lexer w cs\<close>: the tokens of \<open>cs\<close>, where \<open>w\<close> is the run read so far.\<close>

fun lexer :: "string \<Rightarrow> string \<Rightarrow> token list" where
  "lexer w [] = word w"
| "lexer w (c # cs) =
     (if word_char c then lexer (w @ [c]) cs
      else if c = CHR '' '' then word w @ lexer [] cs
      else word w @ symbol c # lexer [] cs)"

definition nat_of_digits :: "string \<Rightarrow> nat" where
  "nat_of_digits ds = foldl (\<lambda>n c. 10 * n + (of_char c - of_char (CHR ''0''))) 0 ds"

fun digits_of :: "nat \<Rightarrow> string" where
  "digits_of n = (if n < 10 then [''0123456789'' ! n]
                  else digits_of (n div 10) @ [''0123456789'' ! (n mod 10)])"

declare digits_of.simps [simp del]

subsection \<open>Syntax\<close>

datatype atom = Lit nat | Var string

datatype expr =
    Atom atom | EmptyList | Add atom atom
  | Append string nat | Pop string | Print atom

datatype stmt = Assign string expr | Raise string | Import string | Expr expr

definition letter :: "char \<Rightarrow> bool" where
  "letter c = (in_range (CHR ''A'') (CHR ''Z'') c \<or> in_range (CHR ''a'') (CHR ''z'') c)"

definition variable :: "string \<Rightarrow> bool" where
  "variable x = (case x of [c] \<Rightarrow> letter c | _ \<Rightarrow> False)"

definition py_keywords :: "string list" where
  "py_keywords =
     [''False'', ''None'', ''True'', ''and'', ''as'', ''assert'', ''async'', ''await'',
      ''break'', ''class'', ''continue'', ''def'', ''del'', ''elif'', ''else'', ''except'',
      ''finally'', ''for'', ''from'', ''global'', ''if'', ''import'', ''in'', ''is'',
      ''lambda'', ''nonlocal'', ''not'', ''or'', ''pass'', ''raise'', ''return'', ''try'',
      ''while'', ''with'', ''yield'']"

text \<open>The exception classes of the fragment, with the exception \<open>raise C\<close> raises.\<close>

definition exception_classes :: "(string \<times> py_exception) list" where
  "exception_classes =
     [(''SystemExit'', NonException ''SystemExit'' []),
      (''KeyboardInterrupt'', NonException ''KeyboardInterrupt'' []),
      (''ValueError'', ValueError []),
      (''TypeError'', OtherException ''TypeError'' []),
      (''RuntimeError'', OtherException ''RuntimeError'' [])]"

definition parse_atom :: "token \<Rightarrow> atom option" where
  "parse_atom t =
     (case t of
        TInt ds \<Rightarrow> Some (Lit (nat_of_digits ds))
      | TName x \<Rightarrow> if variable x then Some (Var x) else None
      | _ \<Rightarrow> None)"

text \<open>The right-hand sides of an assignment.\<close>

definition parse_rhs :: "token list \<Rightarrow> expr option" where
  "parse_rhs ts =
     (case ts of
        [TInt ds] \<Rightarrow> Some (Atom (Lit (nat_of_digits ds)))
      | [TLBrk, TRBrk] \<Rightarrow> Some EmptyList
      | [a, TPlus, b] \<Rightarrow>
          (case (parse_atom a, parse_atom b) of
             (Some a', Some b') \<Rightarrow> Some (Add a' b')
           | _ \<Rightarrow> None)
      | _ \<Rightarrow> None)"

definition parse_expr :: "token list \<Rightarrow> expr option" where
  "parse_expr ts =
     (case ts of
        [t] \<Rightarrow> map_option Atom (parse_atom t)
      | [TName x, TDot, TName m, TLPar, TRPar] \<Rightarrow>
          if variable x \<and> m = ''pop'' then Some (Pop x) else None
      | [TName x, TDot, TName m, TLPar, TInt ds, TRPar] \<Rightarrow>
          if variable x \<and> m = ''append'' then Some (Append x (nat_of_digits ds)) else None
      | [TName f, TLPar, a, TRPar] \<Rightarrow>
          if f = ''print'' then map_option Print (parse_atom a) else None
      | _ \<Rightarrow> parse_rhs ts)"

definition parse_stmt :: "token list \<Rightarrow> stmt option" where
  "parse_stmt ts =
     (case ts of
        TName x # TEq # rhs \<Rightarrow>
          if variable x then map_option (Assign x) (parse_rhs rhs) else None
      | [TName k, TName n] \<Rightarrow>
          if k = ''raise'' \<and> (variable n \<or> n \<in> set (map fst exception_classes))
          then Some (Raise n)
          else if k = ''import'' \<and> n \<notin> set py_keywords then Some (Import n)
          else None
      | _ \<Rightarrow> map_option Expr (parse_expr ts))"

subsection \<open>Evaluation\<close>

definition quoted :: "string \<Rightarrow> string" where
  "quoted s = [CHR 0x27] @ s @ [CHR 0x27]"

definition name_error :: "string \<Rightarrow> py_exception" where
  "name_error x = NameError (''name '' @ quoted x @ '' is not defined'')"

definition type_name :: "val \<Rightarrow> string" where
  "type_name v =
     (case v of VInt _ \<Rightarrow> ''int'' | VNone \<Rightarrow> ''NoneType'' | VList _ \<Rightarrow> ''list''
      | VModule _ \<Rightarrow> ''module'' | VBuiltins \<Rightarrow> ''module'')"

definition attribute_error :: "val \<Rightarrow> string \<Rightarrow> py_exception" where
  "attribute_error v m =
     OtherException ''AttributeError''
       (quoted (type_name v) @ '' object has no attribute '' @ quoted m)"

definition eval_atom :: "val namespace \<Rightarrow> atom \<Rightarrow> py_exception + val" where
  "eval_atom ns a =
     (case a of
        Lit n \<Rightarrow> Inr (VInt (int n))
      | Var x \<Rightarrow> (case map_of ns x of None \<Rightarrow> Inl (name_error x) | Some v \<Rightarrow> Inr v))"

text \<open>\<open>repr\<close>; the file a module was loaded from is left out of its text.\<close>

fun mini_repr :: "val \<Rightarrow> string" where
  "mini_repr (VInt i) = (if i < 0 then CHR ''-'' # digits_of (nat (- i)) else digits_of (nat i))"
| "mini_repr VNone = ''None''"
| "mini_repr (VList vs) = ''['' @ join '', '' (map mini_repr vs) @ '']''"
| "mini_repr (VModule m) = ''<module '' @ quoted m @ ''>''"
| "mini_repr VBuiltins = ''<module '' @ quoted ''builtins'' @ '' (built-in)>''"

text \<open>
  The value or the exception of an expression, the namespace it leaves, and what it
  prints.
\<close>

definition eval_expr ::
  "expr \<Rightarrow> val namespace \<Rightarrow> (py_exception + val) \<times> val namespace \<times> string" where
  "eval_expr e ns =
     (case e of
        Atom a \<Rightarrow> (eval_atom ns a, ns, [])
      | EmptyList \<Rightarrow> (Inr (VList []), ns, [])
      | Add a b \<Rightarrow>
          (case eval_atom ns a of
             Inl x \<Rightarrow> (Inl x, ns, [])
           | Inr u \<Rightarrow>
               (case eval_atom ns b of
                  Inl x \<Rightarrow> (Inl x, ns, [])
                | Inr v \<Rightarrow>
                    (case (u, v) of
                       (VInt i, VInt j) \<Rightarrow> (Inr (VInt (i + j)), ns, [])
                     | (VList xs, VList ys) \<Rightarrow> (Inr (VList (xs @ ys)), ns, [])
                     | _ \<Rightarrow>
                         (Inl (OtherException ''TypeError''
                                 (''unsupported operand type(s) for +: '' @ quoted (type_name u)
                                  @ '' and '' @ quoted (type_name v))), ns, []))))
      | Append x n \<Rightarrow>
          (case map_of ns x of
             None \<Rightarrow> (Inl (name_error x), ns, [])
           | Some (VList xs) \<Rightarrow> (Inr VNone, dict_setitem x (VList (xs @ [VInt (int n)])) ns, [])
           | Some v \<Rightarrow> (Inl (attribute_error v ''append''), ns, []))
      | Pop x \<Rightarrow>
          (case map_of ns x of
             None \<Rightarrow> (Inl (name_error x), ns, [])
           | Some (VList xs) \<Rightarrow>
               if xs = [] then (Inl (OtherException ''IndexError'' ''pop from empty list''), ns, [])
               else (Inr (last xs), dict_setitem x (VList (butlast xs)) ns, [])
           | Some v \<Rightarrow> (Inl (attribute_error v ''pop''), ns, []))
      | Print a \<Rightarrow>
          (case eval_atom ns a of
             Inl x \<Rightarrow> (Inl x, ns, [])
           | Inr v \<Rightarrow> (Inr VNone, ns, mini_repr v @ ''\<newline>'')))"

text \<open>The exception of a statement, if any, what it leaves and what it prints.\<close>

definition run_stmt ::
  "stmt \<Rightarrow> val namespace \<Rightarrow> mini_world
     \<Rightarrow> py_exception option \<times> val namespace \<times> mini_world \<times> string" where
  "run_stmt st ns w =
     (case st of
        Assign x e \<Rightarrow>
          (case eval_expr e ns of
             (Inl exc, ns', out) \<Rightarrow> (Some exc, ns', w, out)
           | (Inr v, ns', out) \<Rightarrow> (None, dict_setitem x v ns', w, out))
      | Raise n \<Rightarrow>
          (case map_of exception_classes n of
             Some exc \<Rightarrow> (Some exc, ns, w, [])
           | None \<Rightarrow>
               (case map_of ns n of
                  None \<Rightarrow> (Some (name_error n), ns, w, [])
                | Some _ \<Rightarrow>
                    (Some (OtherException ''TypeError''
                             ''exceptions must derive from BaseException''), ns, w, [])))
      | Import m \<Rightarrow>
          if m \<in> set (modules w) then (None, dict_setitem m (VModule m) ns, w, [])
          else (Some (ImportError (''No module named '' @ quoted m)), ns, w, [])
      | Expr e \<Rightarrow>
          (case eval_expr e ns of
             (Inl exc, ns', out) \<Rightarrow> (Some exc, ns', w, out)
           | (Inr v, ns', out) \<Rightarrow> (None, ns', w, out)))"

fun run_stmts ::
  "stmt list \<Rightarrow> val namespace \<Rightarrow> mini_world \<Rightarrow> string \<Rightarrow> (val, mini_world) exec_result" where
  "run_stmts [] ns w out =
     \<lparr>ex_namespace = ns, ex_world = w, ex_stdout = out, ex_stderr = [], ex_raised = None\<rparr>"
| "run_stmts (st # sts) ns w out =
     (case run_stmt st ns w of
        (Some exc, ns', w', o') \<Rightarrow>
          \<lparr>ex_namespace = ns', ex_world = w', ex_stdout = out @ o', ex_stderr = [],
           ex_raised = Some exc\<rparr>
      | (None, ns', w', o') \<Rightarrow> run_stmts sts ns' w' (out @ o'))"

definition blank :: "string \<Rightarrow> bool" where
  "blank l = list_all (\<lambda>c. c = CHR '' '') l"

definition parse_line :: "string \<Rightarrow> stmt option" where
  "parse_line l = (if startswith l (CHR '' '') then None else parse_stmt (lexer [] l))"

text \<open>\<open>exec\<close>: compile every line, then run the statements up to the first exception.\<close>

definition mini_exec ::
  "string \<Rightarrow> val namespace \<Rightarrow> mini_world \<Rightarrow> (val, mini_world) exec_result" where
  "mini_exec code ns w =
     (let parsed = map parse_line (filter (\<lambda>l. \<not> blank l) (split (CHR ''\<newline>'') code))
      in if None \<in> set parsed
         then \<lparr>ex_namespace = ns, ex_world = w, ex_stdout = [], ex_stderr = [],
               ex_raised = Some (SyntaxError ''invalid syntax'')\<rparr>
         else run_stmts (map the parsed) ns w [])"

text \<open>
  \<open>eval\<close>: compile the text as one expression and evaluate it. It runs outside the
  redirections, so what it prints goes to the standard output of the process and is not
  part of the result.
\<close>

definition mini_eval ::
  "string \<Rightarrow> val namespace \<Rightarrow> mini_world \<Rightarrow> (val, mini_world) eval_result" where
  "mini_eval src ns w =
     (case parse_expr (lexer [] src) of
        None \<Rightarrow>
          \<lparr>ev_namespace = ns, ev_world = w, ev_value = Inl (SyntaxError ''invalid syntax'')\<rparr>
      | Some e \<Rightarrow>
          (case eval_expr e ns of
             (r, ns', out) \<Rightarrow> \<lparr>ev_namespace = ns', ev_world = w, ev_value = r\<rparr>))"

text \<open>
  \<open>traceback.format_exc\<close>: the header and the line naming the exception. The stack
  frames between them name files and lines of the installation and are left out.
\<close>

definition exception_line :: "py_exception \<Rightarrow> string" where
  "exception_line e =
     (let (c, m) =
        (case e of
           SyntaxError m \<Rightarrow> (''SyntaxError'', m)
         | ValueError m \<Rightarrow> (''ValueError'', m)
         | NameError m \<Rightarrow> (''NameError'', m)
         | ImportError m \<Rightarrow> (''ImportError'', m)
         | CalledProcessError m \<Rightarrow> (''subprocess.CalledProcessError'', m)
         | OtherException c m \<Rightarrow> (c, m)
         | NonException c m \<Rightarrow> (c, m))
      in if m = [] then c else c @ '': '' @ m)"

definition mini_format_exc :: "py_exception \<Rightarrow> string" where
  "mini_format_exc e =
     ''Traceback (most recent call last):\<newline>'' @ exception_line e @ ''\<newline>''"

text \<open>
  The package manager: a package index that gives, for a distribution, the modules it
  installs. \<open>uv pip install p\<close> fails when the index has no \<open>p\<close>, and \<open>subprocess.run\<close>
  cannot start it when \<open>uv\<close> is missing.
\<close>

definition package_index :: "(string \<times> string list) list" where
  "package_index =
     [(''numpy'', [''numpy'']), (''requests'', [''requests'']),
      (''scikit-learn'', [''sklearn'']), (''beautifulsoup4'', [''bs4''])]"

definition mini_run ::
  "string list \<Rightarrow> mini_world \<Rightarrow> (py_exception + completed_process) \<times> mini_world" where
  "mini_run args w =
     (if \<not> uv_installed w
      then (Inl (OtherException ''FileNotFoundError''
                   (''[Errno 2] No such file or directory: '' @ quoted ''uv'')), w)
      else
        (case map_of package_index (last args) of
           None \<Rightarrow>
             (Inl (CalledProcessError ''error: No solution found when resolving dependencies''), w)
         | Some ms \<Rightarrow>
             (Inr \<lparr>returncode = 0, proc_stdout = [], proc_stderr = []\<rparr>,
              w\<lparr>modules := modules w @ ms\<rparr>)))"

definition mini :: "(val, mini_world) runtime" where
  "mini =
     \<lparr>rt_builtins = VBuiltins, rt_exec = mini_exec, rt_eval = mini_eval,
      rt_repr = mini_repr, rt_format_exc = mini_format_exc, rt_run = mini_run\<rparr>"

text \<open>The state of a fresh server on a machine with \<open>uv\<close> and no third-party module.\<close>

definition s0 :: "(val, mini_world) state" where
  "s0 = initial_state mini \<lparr>uv_installed = True, modules = []\<rparr>"


section \<open>Properties\<close>

subsection \<open>Dictionaries and strings\<close>

lemma map_of_dict_setitem: "map_of (dict_setitem k v d) = (map_of d)(k \<mapsto> v)"
  by (induction d) (auto simp: fun_eq_iff)


lemma split_no_sep: "sep \<notin> set s \<Longrightarrow> split sep s = [s]"
  by (induction s) auto

subsection \<open>Facts about the fragment\<close>

lemma digit_nth:
  "k < 10 \<Longrightarrow> digit (''0123456789'' ! k) \<and> (of_char (''0123456789'' ! k) :: nat) = 48 + k"
proof -
  assume "k < 10"
  then have "k \<in> {0, 1, 2, 3, 4, 5, 6, 7, 8, 9}" by auto
  then show ?thesis
    by (auto simp: digit_def in_range_def)
qed

lemma digit_word_char: "digit c \<Longrightarrow> word_char c"
  by (simp add: digit_def word_char_def alnum_def)

lemma letter_word_char: "letter c \<Longrightarrow> word_char c"
  by (auto simp: letter_def word_char_def alnum_def)

lemma letter_not_digit: "letter c \<Longrightarrow> \<not> digit c"
  by (auto simp: letter_def digit_def in_range_def)

lemma word_char_not_space: "word_char c \<Longrightarrow> \<not> py_isspace c \<and> c \<noteq> CHR '' '' \<and> c \<noteq> CHR ''\<newline>''"
  by (auto simp: word_char_def alnum_def in_range_def py_isspace_def Let_def)

lemma digits_of_small: "n < 10 \<Longrightarrow> digits_of n = [''0123456789'' ! n]"
  by (subst digits_of.simps) simp

lemma digits_of_large:
  "\<not> n < 10 \<Longrightarrow> digits_of n = digits_of (n div 10) @ [''0123456789'' ! (n mod 10)]"
  by (subst digits_of.simps) simp

lemma digits_of_digits: "list_all digit (digits_of n)"
proof (induction n rule: digits_of.induct)
  case (1 n)
  show ?case
  proof (cases "n < 10")
    case True
    then show ?thesis
      using digit_nth [of n] by (simp add: digits_of_small del: nth_Cons_numeral)
  next
    case False
    have "n mod 10 < 10" by simp
    with "1" False show ?thesis
      using digit_nth [of "n mod 10"] by (simp add: digits_of_large del: nth_Cons_numeral)
  qed
qed

lemma digits_of_nonempty: "digits_of n \<noteq> []"
  by (subst digits_of.simps) simp

lemma hd_digits_of_zero: "hd (digits_of n) = CHR ''0'' \<Longrightarrow> n = 0"
proof (induction n rule: digits_of.induct)
  case (1 n)
  show ?case
  proof (cases "n < 10")
    case True
    with "1.prems" have "''0123456789'' ! n = CHR ''0''"
      by (simp add: digits_of_small del: nth_Cons_numeral)
    then have "(of_char (''0123456789'' ! n) :: nat) = 48"
      by (simp del: nth_Cons_numeral)
    with digit_nth [OF True] show ?thesis by simp
  next
    case False
    with "1.prems" have "hd (digits_of (n div 10)) = CHR ''0''"
      by (simp add: digits_of_large digits_of_nonempty del: nth_Cons_numeral)
    with "1.IH" False have "n div 10 = 0" by simp
    with False show ?thesis by simp
  qed
qed

lemma nat_of_digits_snoc:
  "nat_of_digits (ds @ [c]) = 10 * nat_of_digits ds + (of_char c - of_char (CHR ''0''))"
  by (simp add: nat_of_digits_def)

lemma nat_of_digits_digits_of: "nat_of_digits (digits_of n) = n"
proof (induction n rule: digits_of.induct)
  case (1 n)
  show ?case
  proof (cases "n < 10")
    case True
    with digit_nth [OF True] show ?thesis
      by (simp add: nat_of_digits_def digits_of_small del: nth_Cons_numeral)
  next
    case False
    have m: "n mod 10 < 10" by simp
    from "1" False have "nat_of_digits (digits_of (n div 10)) = n div 10" by simp
    with False digit_nth [OF m] show ?thesis
      by (simp add: digits_of_large nat_of_digits_snoc del: nth_Cons_numeral)
  qed
qed

lemma word_digits_of: "word (digits_of n) = [TInt (digits_of n)]"
proof (cases "hd (digits_of n) = CHR ''0''")
  case True
  then have "n = 0" by (rule hd_digits_of_zero)
  moreover have "word (digits_of 0) = [TInt (digits_of 0)]" by code_simp
  ultimately show ?thesis by simp
next
  case False
  then show ?thesis
    by (simp add: word_def digits_of_nonempty digits_of_digits)
qed

lemma lexer_word: "list_all word_char ds \<Longrightarrow> lexer w ds = word (w @ ds)"
  by (induction ds arbitrary: w) simp_all

lemma lexer_digits_of: "lexer [] (digits_of n) = [TInt (digits_of n)]"
proof -
  have "list_all word_char (digits_of n)"
    using digits_of_digits [of n] by (auto simp: list_all_iff dest: digit_word_char)
  then show ?thesis by (simp add: lexer_word word_digits_of)
qed

lemma word_letter: "letter c \<Longrightarrow> word [c] = [TName [c]]"
  by (simp add: word_def letter_not_digit)

lemma lexer_assignment:
  assumes "letter c"
  shows "lexer [] ([c] @ '' = '' @ digits_of n) = [TName [c], TEq, TInt (digits_of n)]"
proof -
  have "\<not> word_char (CHR '' '')" and "\<not> word_char (CHR ''='')" by code_simp+
  moreover have "symbol (CHR ''='') = TEq" by code_simp
  moreover have "word [] = []" by (simp add: word_def)
  ultimately show ?thesis
    using assms
    by (simp add: letter_word_char word_letter lexer_digits_of)
qed


lemma variable_letter: "variable x \<Longrightarrow> \<exists>c. x = [c] \<and> letter c"
  by (auto simp: variable_def split: list.splits)

lemma dropWhile_hd: "xs \<noteq> [] \<Longrightarrow> \<not> P (hd xs) \<Longrightarrow> dropWhile P xs = xs"
  by (cases xs) simp_all

lemma strip_id:
  assumes "s \<noteq> []" and "\<not> py_isspace (hd s)" and "\<not> py_isspace (last s)"
  shows "strip s = s"
proof -
  from assms have 1: "dropWhile py_isspace s = s"
    by (simp add: dropWhile_hd)
  from assms have "dropWhile py_isspace (rev s) = rev s"
    by (simp add: dropWhile_hd hd_rev)
  with 1 show ?thesis by (simp add: strip_def)
qed

lemma last_line_one_line:
  assumes "s \<noteq> []" and "\<not> py_isspace (hd s)" and "\<not> py_isspace (last s)"
      and "CHR ''\<newline>'' \<notin> set s"
  shows "last_line s = s"
  using assms by (simp add: last_line_def strip_id split_no_sep)

lemma last_digits_of: "digit (last (digits_of n))"
  using digits_of_digits [of n] digits_of_nonempty [of n]
  by (simp add: list_all_iff)

lemma set_digits_of: "c \<in> set (digits_of n) \<Longrightarrow> digit c"
  using digits_of_digits [of n] by (simp add: list_all_iff)

lemma assignment_one_line:
  assumes "letter c"
  shows "split (CHR ''\<newline>'') ([c] @ '' = '' @ digits_of n) = [[c] @ '' = '' @ digits_of n]"
    and "last_line ([c] @ '' = '' @ digits_of n) = [c] @ '' = '' @ digits_of n"
    and "\<not> blank ([c] @ '' = '' @ digits_of n)"
    and "\<not> startswith ([c] @ '' = '' @ digits_of n) (CHR '' '')"
proof -
  from assms have c: "\<not> py_isspace c \<and> c \<noteq> CHR '' '' \<and> c \<noteq> CHR ''\<newline>''"
    by (auto dest: letter_word_char word_char_not_space)
  have d: "CHR ''\<newline>'' \<notin> set (digits_of n)"
    by (auto dest!: set_digits_of digit_word_char word_char_not_space)
  from c d have nl: "CHR ''\<newline>'' \<notin> set ([c] @ '' = '' @ digits_of n)"
    by auto
  then show "split (CHR ''\<newline>'') ([c] @ '' = '' @ digits_of n) =
      [[c] @ '' = '' @ digits_of n]"
    by (rule split_no_sep)
  have "\<not> py_isspace (last ([c] @ '' = '' @ digits_of n))"
    using last_digits_of [of n] digits_of_nonempty [of n]
    by (auto dest: digit_word_char word_char_not_space)
  with c nl show "last_line ([c] @ '' = '' @ digits_of n) = [c] @ '' = '' @ digits_of n"
    by (intro last_line_one_line) simp_all
  from c show "\<not> blank ([c] @ '' = '' @ digits_of n)"
    by (simp add: blank_def)
  from c show "\<not> startswith ([c] @ '' = '' @ digits_of n) (CHR '' '')"
    by (simp add: startswith_def)
qed

lemma mini_exec_assignment:
  assumes "letter c"
  shows "mini_exec ([c] @ '' = '' @ digits_of n) ns w =
     \<lparr>ex_namespace = dict_setitem [c] (VInt (int n)) ns, ex_world = w, ex_stdout = [],
      ex_stderr = [], ex_raised = None\<rparr>"
proof -
  let ?code = "[c] @ '' = '' @ digits_of n"
  from assms have v: "variable [c]" by (simp add: variable_def)
  have p: "parse_line ?code = Some (Assign [c] (Atom (Lit n)))"
    using assignment_one_line(4) [OF assms, of n]
    by (simp only: parse_line_def lexer_assignment [OF assms] if_False)
       (simp add: parse_stmt_def parse_rhs_def v nat_of_digits_digits_of)
  show ?thesis
    unfolding mini_exec_def assignment_one_line(1) [OF assms]
    using assignment_one_line(3) [OF assms, of n]
    by (simp add: p run_stmt_def eval_expr_def eval_atom_def del: append.simps)
qed

lemma mini_eval_assignment:
  assumes "letter c"
  shows "mini_eval (last_line ([c] @ '' = '' @ digits_of n)) ns w =
     \<lparr>ev_namespace = ns, ev_world = w, ev_value = Inl (SyntaxError ''invalid syntax'')\<rparr>"
  unfolding assignment_one_line(2) [OF assms] mini_eval_def lexer_assignment [OF assms]
  by (simp add: parse_expr_def parse_rhs_def)

text \<open>
  In the fragment, an assignment of a decimal literal to a variable only binds that
  variable, and a variable alone only references it.
\<close>

lemma binds_assignment:
  "variable x \<Longrightarrow> binds mini (x @ '' = '' @ digits_of n) x (VInt (int n))"
  unfolding binds_def
  by (auto dest!: variable_letter
      simp: mini_def mini_exec_assignment mini_eval_assignment simp del: append.simps)

lemma lexer_variable: "letter c \<Longrightarrow> lexer [] [c] = [TName [c]]"
  by (simp add: letter_word_char word_letter)

lemma mini_exec_variable:
  assumes "letter c" and "map_of ns [c] = Some v"
  shows "mini_exec [c] ns w =
     \<lparr>ex_namespace = ns, ex_world = w, ex_stdout = [], ex_stderr = [], ex_raised = None\<rparr>"
proof -
  from assms(1) have c: "\<not> py_isspace c \<and> c \<noteq> CHR '' '' \<and> c \<noteq> CHR ''\<newline>''"
    by (auto dest: letter_word_char word_char_not_space)
  from assms(1) have v: "variable [c]" by (simp add: variable_def)
  from c have l: "split (CHR ''\<newline>'') [c] = [[c]]" by auto
  from c have p: "parse_line [c] = Some (Expr (Atom (Var [c])))"
    by (simp add: parse_line_def startswith_def lexer_variable [OF assms(1)] parse_stmt_def
        parse_expr_def parse_atom_def v del: lexer.simps)
  from c show ?thesis
    unfolding mini_exec_def l
    by (simp add: blank_def p run_stmt_def eval_expr_def eval_atom_def assms(2))
qed

lemma mini_eval_variable:
  assumes "letter c" and "map_of ns [c] = Some v"
  shows "mini_eval (last_line [c]) ns w =
     \<lparr>ev_namespace = ns, ev_world = w, ev_value = Inr v\<rparr>"
proof -
  from assms(1) have c: "\<not> py_isspace c \<and> c \<noteq> CHR '' '' \<and> c \<noteq> CHR ''\<newline>''"
    by (auto dest: letter_word_char word_char_not_space)
  from assms(1) have v: "variable [c]" by (simp add: variable_def)
  from c have l: "last_line [c] = [c]"
    by (intro last_line_one_line) auto
  show ?thesis
    unfolding l mini_eval_def lexer_variable [OF assms(1)]
    by (simp add: parse_expr_def parse_atom_def v eval_expr_def eval_atom_def assms(2))
qed

lemma refers_variable: "variable x \<Longrightarrow> refers mini x x"
  unfolding refers_def
  by (auto dest!: variable_letter simp: mini_def mini_exec_variable mini_eval_variable)

lemma mini_exec_x5:
  "mini_exec ''x = 5'' ns w =
     \<lparr>ex_namespace = dict_setitem ''x'' (VInt 5) ns, ex_world = w, ex_stdout = [],
      ex_stderr = [], ex_raised = None\<rparr>"
  by code_simp

lemma mini_eval_x5:
  "mini_eval (last_line ''x = 5'') ns w =
     \<lparr>ev_namespace = ns, ev_world = w, ev_value = Inl (SyntaxError ''invalid syntax'')\<rparr>"
  by code_simp

lemma binds_x5: "binds mini ''x = 5'' ''x'' (VInt 5)"
  unfolding binds_def
  by (simp add: mini_def mini_exec_x5 mini_eval_x5 del: lexer.simps split.simps)

lemma lines_x: "filter (\<lambda>l. \<not> blank l) (split (CHR ''\<newline>'') ''x'') = [''x'']"
  by code_simp

lemma parse_line_x: "parse_line ''x'' = Some (Expr (Atom (Var ''x'')))"
  by code_simp

lemma last_line_x: "last_line ''x'' = ''x''"
  by code_simp

lemma parse_expr_x: "parse_expr (lexer [] ''x'') = Some (Atom (Var ''x''))"
  by code_simp

lemma mini_exec_x:
  "map_of ns ''x'' = Some v \<Longrightarrow>
   mini_exec ''x'' ns w =
     \<lparr>ex_namespace = ns, ex_world = w, ex_stdout = [], ex_stderr = [], ex_raised = None\<rparr>"
  unfolding mini_exec_def
  by (simp add: lines_x parse_line_x run_stmt_def eval_expr_def eval_atom_def
      del: lexer.simps split.simps)

lemma mini_eval_x:
  "map_of ns ''x'' = Some v \<Longrightarrow>
   mini_eval (last_line ''x'') ns w = \<lparr>ev_namespace = ns, ev_world = w, ev_value = Inr v\<rparr>"
  unfolding mini_eval_def last_line_x
  by (simp add: parse_expr_x eval_expr_def eval_atom_def del: lexer.simps split.simps)

lemma refers_x: "refers mini ''x'' ''x''"
  unfolding refers_def
  by (simp add: mini_def mini_exec_x mini_eval_x del: lexer.simps split.simps)

subsection \<open>The namespace persists across calls\<close>

lemma execute_python_reset:
  "execute_python rt code True s =
     (Inr ''Python session reset. All variables cleared.'',
      s\<lparr>global_namespace := [(''__builtins__'', rt_builtins rt)]\<rparr>)"
  by (simp add: execute_python_def)

lemma execute_python_binds:
  assumes "binds rt code x v"
  shows "execute_python rt code False s =
           (Inr ''Code executed successfully (no output)'',
            \<lparr>global_namespace = dict_setitem x v (global_namespace s), world = world s,
             calls = calls s @ [Exec code, Eval (last_line code)]\<rparr>)"
proof -
  let ?ns = "global_namespace s" and ?w = "world s"
  from assms have ex: "rt_exec rt code ?ns ?w =
      \<lparr>ex_namespace = dict_setitem x v ?ns, ex_world = ?w, ex_stdout = [], ex_stderr = [],
       ex_raised = None\<rparr>"
    by (simp add: binds_def)
  from assms obtain msg where ev: "rt_eval rt (last_line code) (dict_setitem x v ?ns) ?w =
      \<lparr>ev_namespace = dict_setitem x v ?ns, ev_world = ?w, ev_value = Inl (SyntaxError msg)\<rparr>"
    unfolding binds_def by blast
  show ?thesis
    by (simp add: execute_python_def py_exec_def py_eval_def ex ev)
qed

lemma execute_all_binds:
  assumes "\<forall>(code, x, v) \<in> set bs. binds rt code x v"
  shows "map_of (global_namespace (execute_all rt (map fst bs) s)) =
           map_of (global_namespace s) ++ map_of (rev (map snd bs))"
  using assms
proof (induction bs arbitrary: s)
  case Nil
  then show ?case by simp
next
  case (Cons b bs)
  obtain code x v where b: "b = (code, x, v)" by (cases b)
  with Cons.prems have bx: "binds rt code x v" by simp
  from Cons.prems have rest: "\<forall>(code, x, v) \<in> set bs. binds rt code x v" by simp
  have "map_of (global_namespace (execute_all rt (map fst (b # bs)) s)) =
          map_of (dict_setitem x v (global_namespace s)) ++ map_of (rev (map snd bs))"
    by (simp add: b execute_python_binds [OF bx] Cons.IH [OF rest])
  also have "\<dots> = map_of (global_namespace s) ++ map_of (rev (map snd (b # bs)))"
    by (auto simp: b map_of_dict_setitem map_add_def fun_eq_iff split: option.splits)
  finally show ?case .
qed

lemma execute_python_refers:
  assumes "refers rt ref y" and "map_of (global_namespace s) y = Some v"
  shows "fst (execute_python rt ref False s) = Inr (''Result: '' @ rt_repr rt v)"
proof -
  from assms have
    ex: "rt_exec rt ref (global_namespace s) (world s) =
          \<lparr>ex_namespace = global_namespace s, ex_world = world s, ex_stdout = [],
           ex_stderr = [], ex_raised = None\<rparr>" and
    ev: "rt_eval rt (last_line ref) (global_namespace s) (world s) =
          \<lparr>ev_namespace = global_namespace s, ev_world = world s, ev_value = Inr v\<rparr>"
    unfolding refers_def by blast+
  show ?thesis
    by (simp add: execute_python_def py_exec_def py_eval_def ex ev)
qed

text \<open>
  C1. Namespace bindings persist across calls. Let \<open>bs\<close> be a sequence of calls, each
  given with the variable and the value it binds, where every call only binds that simple
  variable, and let a later call only reference the variable \<open>y\<close>. If \<open>v\<close> is the value
  the sequence bound to \<open>y\<close> last, the later call returns the text \<open>Result: \<close> followed
  by the printed representation of \<open>v\<close>, whatever the state the sequence started from and
  whatever the runtime.
\<close>

theorem namespace_persists:
  assumes "\<forall>(code, x, v) \<in> set bs. binds rt code x v"
      and "refers rt ref y"
      and "map_of (rev (map snd bs)) y = Some v"
  shows "fst (execute_python rt ref False (execute_all rt (map fst bs) s)) =
           Inr (''Result: '' @ rt_repr rt v)"
proof -
  have "map_of (global_namespace (execute_all rt (map fst bs) s)) y = Some v"
    by (simp add: execute_all_binds [OF assms(1)] assms(3))
  with assms(2) show ?thesis
    by (rule execute_python_refers)
qed

text \<open>
  The instance of the claim: after \<open>execute_python("x = 5")\<close> on a fresh server, the call
  \<open>execute_python("x")\<close> returns \<open>Result: 5\<close>.
\<close>

theorem namespace_persists_witness:
  "binds mini ''x = 5'' ''x'' (VInt 5) \<and>
   refers mini ''x'' ''x'' \<and>
   map_of (rev (map snd [(''x = 5'', ''x'', VInt 5)])) ''x'' = Some (VInt 5) \<and>
   fst (execute_python mini ''x'' False (snd (execute_python mini ''x = 5'' False s0))) =
     Inr ''Result: 5''"
proof -
  have h1: "\<forall>(code, x, v) \<in> set [(''x = 5'', ''x'', VInt 5)]. binds mini code x v"
    by (simp add: binds_x5)
  have h3: "map_of (rev (map snd [(''x = 5'', ''x'', VInt 5)])) ''x'' = Some (VInt 5)"
    by simp
  have r: "rt_repr mini (VInt 5) = ''5''"
    by code_simp
  from namespace_persists [OF h1 refers_x h3, of s0] binds_x5 refers_x h3 r show ?thesis
    by simp
qed

text \<open>
  On the runtime for the fragment, this covers every sequence of assignments of decimal
  literals to variables: a later call that is a variable alone returns the literal
  assigned to it last.
\<close>

lemma assignments_persist:
  assumes "\<forall>(x, n) \<in> set as. variable x"
      and "map_of (rev as) y = Some n"
  shows "fst (execute_python mini y False
                (execute_all mini (map (\<lambda>(x, n). x @ '' = '' @ digits_of n) as) s)) =
           Inr (''Result: '' @ digits_of n)"
proof -
  let ?bs = "map (\<lambda>(x, n). (x @ '' = '' @ digits_of n, x, VInt (int n))) as"
  have codes: "map fst ?bs = map (\<lambda>(x, n). x @ '' = '' @ digits_of n) as"
    by (simp add: case_prod_unfold)
  have vals: "map snd ?bs = map (\<lambda>(x, n). (x, VInt (int n))) as"
    by (simp add: case_prod_unfold)
  have ba: "binds mini (x @ CHR '' '' # CHR ''='' # CHR '' '' # digits_of n) x (VInt (int n))"
    if "variable x" for x n
    using binds_assignment [OF that, of n] by simp
  from assms(1) have b: "\<forall>(code, x, v) \<in> set ?bs. binds mini code x v"
    by (auto simp: ba)
  from assms(2) have "(y, n) \<in> set as"
    by (auto dest: map_of_SomeD)
  with assms(1) have y: "variable y" by auto
  have "map_of (rev (map snd ?bs)) y = map_option (\<lambda>n. VInt (int n)) (map_of (rev as) y)"
    unfolding vals rev_map map_of_map by simp
  with assms(2) have "map_of (rev (map snd ?bs)) y = Some (VInt (int n))" by simp
  then have "(map_of (global_namespace s) ++ map_of (rev (map snd ?bs))) y =
      Some (VInt (int n))"
    by (rule map_add_find_right)
  then have "map_of (global_namespace (execute_all mini (map fst ?bs) s)) y =
      Some (VInt (int n))"
    by (simp only: execute_all_binds [OF b])
  with refers_variable [OF y] have
    "fst (execute_python mini y False (execute_all mini (map fst ?bs) s)) =
       Inr (''Result: '' @ rt_repr mini (VInt (int n)))"
    by (rule execute_python_refers)
  then show ?thesis
    unfolding codes by (simp add: mini_def)
qed

subsection \<open>Reset\<close>

text \<open>
  C2. A call with \<open>reset\<close> set does not run the code, whatever the code is: no call into
  the runtime is recorded and the environment is unchanged, the namespace is left with the
  built-ins entry alone, and the confirmation message is returned. Consequently, after
  \<open>execute_python("x = 5")\<close> and a reset call (with any code), \<open>execute_python("x")\<close>
  returns the fault report of the \<open>NameError\<close> for \<open>x\<close>.
\<close>

theorem reset_clears_namespace:
  "execute_python rt code True s =
     (Inr ''Python session reset. All variables cleared.'',
      s\<lparr>global_namespace := [(''__builtins__'', rt_builtins rt)]\<rparr>) \<and>
   fst (execute_python mini ''x'' False
          (snd (execute_python mini code' True
             (snd (execute_python mini ''x = 5'' False s0))))) =
     Inr (''Error executing code:\<newline>'' @ rt_format_exc mini (name_error ''x''))"
proof
  show "execute_python rt code True s =
     (Inr ''Python session reset. All variables cleared.'',
      s\<lparr>global_namespace := [(''__builtins__'', rt_builtins rt)]\<rparr>)"
    by (rule execute_python_reset)
next
  let ?s1 = "snd (execute_python mini ''x = 5'' False s0)"
  have ns: "global_namespace (snd (execute_python mini code' True ?s1)) =
              [(''__builtins__'', VBuiltins)]"
    by (simp add: execute_python_reset mini_def)
  have ex: "mini_exec ''x'' [(''__builtins__'', VBuiltins)] w =
      \<lparr>ex_namespace = [(''__builtins__'', VBuiltins)], ex_world = w, ex_stdout = [],
       ex_stderr = [], ex_raised = Some (name_error ''x'')\<rparr>" for w
    by code_simp
  show "fst (execute_python mini ''x'' False (snd (execute_python mini code' True ?s1))) =
     Inr (''Error executing code:\<newline>'' @ rt_format_exc mini (name_error ''x''))"
    unfolding execute_python_def [of mini "''x''" False] py_exec_def ns
    by (simp add: mini_def ex except_Exception_def name_error_def
        del: lexer.simps split.simps)
qed

text \<open>
  The same at a concrete reset call, whose code would bind \<open>x\<close> if it ran; the report is
  spelled out.
\<close>

theorem reset_clears_namespace_witness:
  "execute_python mini ''x = 5'' True (snd (execute_python mini ''x = 5'' False s0)) =
     (Inr ''Python session reset. All variables cleared.'',
      \<lparr>global_namespace = [(''__builtins__'', VBuiltins)],
       world = \<lparr>uv_installed = True, modules = []\<rparr>,
       calls = [Exec ''x = 5'', Eval ''x = 5'']\<rparr>) \<and>
   fst (execute_python mini ''x'' False
          (snd (execute_python mini ''x = 5'' True
             (snd (execute_python mini ''x = 5'' False s0))))) =
     Inr (''Error executing code:\<newline>Traceback (most recent call last):\<newline>''
          @ ''NameError: name '' @ quoted ''x'' @ '' is not defined\<newline>'')"
proof -
  let ?s1 = "snd (execute_python mini ''x = 5'' False s0)"
  have s1: "?s1\<lparr>global_namespace := [(''__builtins__'', rt_builtins mini)]\<rparr> =
      \<lparr>global_namespace = [(''__builtins__'', VBuiltins)],
       world = \<lparr>uv_installed = True, modules = []\<rparr>,
       calls = [Exec ''x = 5'', Eval ''x = 5'']\<rparr>"
    by code_simp
  have f: "''Error executing code:\<newline>'' @ rt_format_exc mini (name_error ''x'') =
      ''Error executing code:\<newline>Traceback (most recent call last):\<newline>''
          @ ''NameError: name '' @ quoted ''x'' @ '' is not defined\<newline>''"
    by code_simp
  have inst: "execute_python mini ''x = 5'' True ?s1 =
     (Inr ''Python session reset. All variables cleared.'',
      ?s1\<lparr>global_namespace := [(''__builtins__'', rt_builtins mini)]\<rparr>) \<and>
   fst (execute_python mini ''x'' False (snd (execute_python mini ''x = 5'' True ?s1))) =
     Inr (''Error executing code:\<newline>'' @ rt_format_exc mini (name_error ''x''))"
    by (rule reset_clears_namespace)
  show ?thesis
    using inst unfolding s1 f .
qed

subsection \<open>Faults raised by the submitted code\<close>

text \<open>
  C3, as amended. A fault raised while the submitted code runs is captured when it is an
  instance of \<open>Exception\<close>: if every fault of the call is one, the call returns a text,
  and when \<open>exec\<close> raised the fault, the text is \<open>Error executing code:\<close> followed by
  the formatted trace of that fault.
\<close>

theorem execute_python_reports_Exception:
  assumes "list_all is_Exception (faults rt code s)"
  shows "case ex_raised (fst (py_exec rt code s)) of
           Some e \<Rightarrow>
             fst (execute_python rt code False s) =
               Inr (''Error executing code:\<newline>'' @ rt_format_exc rt e)
         | None \<Rightarrow> \<exists>text. fst (execute_python rt code False s) = Inr text"
  using assms
  by (auto simp: faults_def execute_python_def except_Exception_def Let_def
      split: prod.splits option.splits sum.splits if_splits)

text \<open>On a fresh server, \<open>execute_python("x")\<close> reports the \<open>NameError\<close>.\<close>

theorem execute_python_reports_Exception_witness:
  "list_all is_Exception (faults mini ''x'' s0) \<and>
   ex_raised (fst (py_exec mini ''x'' s0)) = Some (name_error ''x'') \<and>
   fst (execute_python mini ''x'' False s0) =
     Inr (''Error executing code:\<newline>'' @ rt_format_exc mini (name_error ''x''))"
proof -
  have f: "list_all is_Exception (faults mini ''x'' s0)"
    by code_simp
  have r: "ex_raised (fst (py_exec mini ''x'' s0)) = Some (name_error ''x'')"
    by code_simp
  from execute_python_reports_Exception [OF f] f r show ?thesis
    by simp
qed

text \<open>
  C3 as stated fails: \<open>except Exception\<close> does not catch \<open>SystemExit\<close>, so
  \<open>execute_python("raise SystemExit")\<close> returns no text; the exception leaves the tool
  function.
\<close>

theorem SystemExit_leaves_execute_python:
  "fst (execute_python mini ''raise SystemExit'' False s0) = Inl (NonException ''SystemExit'' [])"
  by code_simp

subsection \<open>The fallback evaluation of the last line\<close>

text \<open>
  C6, as amended. When the main execution succeeded with no captured output and the
  evaluation of the last line fails with a \<open>SyntaxError\<close>, a \<open>ValueError\<close> or a
  \<open>NameError\<close>, the failure is swallowed and the text returned is the fixed no-output
  message; a last line that is not an expression (an assignment) is such a case.
\<close>

theorem fallback_fault_swallowed:
  assumes "py_exec rt code s = (r, s1)"
      and "ex_raised r = None" and "ex_stdout r = []" and "ex_stderr r = []"
      and "fst (py_eval rt (last_line code) s1) = Inl e"
      and "is_fallback_fault e"
  shows "fst (execute_python rt code False s) = Inr ''Code executed successfully (no output)''"
  using assms
  by (auto simp: execute_python_def split: prod.splits sum.splits)

text \<open>The code \<open>x = 5\<close> ends with an assignment: the result is the no-output message.\<close>

theorem fallback_fault_swallowed_witness:
  "ex_raised (fst (py_exec mini ''x = 5'' s0)) = None \<and>
   ex_stdout (fst (py_exec mini ''x = 5'' s0)) = [] \<and>
   ex_stderr (fst (py_exec mini ''x = 5'' s0)) = [] \<and>
   fst (py_eval mini (last_line ''x = 5'') (snd (py_exec mini ''x = 5'' s0))) =
     Inl (SyntaxError ''invalid syntax'') \<and>
   is_fallback_fault (SyntaxError ''invalid syntax'') \<and>
   fst (execute_python mini ''x = 5'' False s0) = Inr ''Code executed successfully (no output)''"
proof -
  let ?r = "fst (py_exec mini ''x = 5'' s0)" and ?s1 = "snd (py_exec mini ''x = 5'' s0)"
  have h1: "py_exec mini ''x = 5'' s0 = (?r, ?s1)" by simp
  have h2: "ex_raised ?r = None" by code_simp
  have h3: "ex_stdout ?r = []" by code_simp
  have h4: "ex_stderr ?r = []" by code_simp
  have h5: "fst (py_eval mini (last_line ''x = 5'') ?s1) = Inl (SyntaxError ''invalid syntax'')"
    by code_simp
  have h6: "is_fallback_fault (SyntaxError ''invalid syntax'')" by simp
  from fallback_fault_swallowed [OF h1 h2 h3 h4 h5 h6] h2 h3 h4 h5 h6 show ?thesis
    by simp
qed

text \<open>
  C6 as stated fails: the code \<open>x = []\<close>, \<open>x.append(1)\<close>, \<open>x.pop()\<close> runs without
  output and leaves \<open>x\<close> empty, so the second evaluation of \<open>x.pop()\<close> raises an
  \<open>IndexError\<close>, which the inner handler does not catch: the result is the fault report,
  not the no-output message.
\<close>

theorem fallback_IndexError_is_reported:
  "ex_raised (fst (py_exec mini ''x = []\<newline>x.append(1)\<newline>x.pop()'' s0)) = None \<and>
   ex_stdout (fst (py_exec mini ''x = []\<newline>x.append(1)\<newline>x.pop()'' s0)) = [] \<and>
   ex_stderr (fst (py_exec mini ''x = []\<newline>x.append(1)\<newline>x.pop()'' s0)) = [] \<and>
   faults mini ''x = []\<newline>x.append(1)\<newline>x.pop()'' s0 =
     [OtherException ''IndexError'' ''pop from empty list''] \<and>
   fst (execute_python mini ''x = []\<newline>x.append(1)\<newline>x.pop()'' False s0) =
     Inr (''Error executing code:\<newline>'' @
          rt_format_exc mini (OtherException ''IndexError'' ''pop from empty list'')) \<and>
   fst (execute_python mini ''x = []\<newline>x.append(1)\<newline>x.pop()'' False s0) \<noteq>
     Inr ''Code executed successfully (no output)''"
  by code_simp

subsection \<open>The text of a successful call\<close>



subsection \<open>The last line runs twice\<close>

text \<open>
  C9. When the execution of the code succeeds with no captured output, the last line is
  evaluated a second time: the calls into the runtime are the \<open>exec\<close> of the code and
  then the \<open>eval\<close> of its last line, and the namespace the call leaves is the one this
  \<open>eval\<close> leaves when it starts from the namespace \<open>exec\<close> left. So the effects of a
  last line that changes the state occur twice in one call.
\<close>

theorem last_line_evaluated_again:
  assumes "py_exec rt code s = (r, s1)"
      and "ex_raised r = None" and "ex_stdout r = []" and "ex_stderr r = []"
  shows "calls (snd (execute_python rt code False s)) =
           calls s @ [Exec code, Eval (last_line code)] \<and>
         global_namespace (snd (execute_python rt code False s)) =
           ev_namespace (rt_eval rt (last_line code) (ex_namespace r) (ex_world r))"
proof -
  from assms(1) have r: "r = rt_exec rt code (global_namespace s) (world s)"
    and s1: "s1 = \<lparr>global_namespace = ex_namespace r, world = ex_world r,
                     calls = calls s @ [Exec code]\<rparr>"
    by (auto simp: py_exec_def Let_def)
  have "snd (execute_python rt code False s) = snd (py_eval rt (last_line code) s1)"
    using assms
    by (auto simp: execute_python_def except_Exception_def split: prod.splits sum.splits)
  then show ?thesis
    by (simp add: py_eval_def s1 Let_def)
qed

text \<open>
  The code \<open>x = []\<close>, \<open>x.append(1)\<close>: \<open>exec\<close> leaves \<open>x\<close> bound to \<open>[1]\<close>, the call
  leaves it bound to \<open>[1, 1]\<close> and returns \<open>Result: None\<close>.
\<close>

theorem last_line_evaluated_again_witness:
  "ex_raised (fst (py_exec mini ''x = []\<newline>x.append(1)'' s0)) = None \<and>
   ex_stdout (fst (py_exec mini ''x = []\<newline>x.append(1)'' s0)) = [] \<and>
   ex_stderr (fst (py_exec mini ''x = []\<newline>x.append(1)'' s0)) = [] \<and>
   map_of (ex_namespace (fst (py_exec mini ''x = []\<newline>x.append(1)'' s0))) ''x'' =
     Some (VList [VInt 1]) \<and>
   calls (snd (execute_python mini ''x = []\<newline>x.append(1)'' False s0)) =
     [Exec ''x = []\<newline>x.append(1)'', Eval ''x.append(1)''] \<and>
   map_of (global_namespace (snd (execute_python mini ''x = []\<newline>x.append(1)'' False s0)))
     ''x'' = Some (VList [VInt 1, VInt 1]) \<and>
   fst (execute_python mini ''x = []\<newline>x.append(1)'' False s0) = Inr ''Result: None''"
proof -
  let ?code = "''x = []\<newline>x.append(1)''"
  let ?r = "fst (py_exec mini ?code s0)" and ?s1 = "snd (py_exec mini ?code s0)"
  have h1: "py_exec mini ?code s0 = (?r, ?s1)" by simp
  have h2: "ex_raised ?r = None" by code_simp
  have h3: "ex_stdout ?r = []" by code_simp
  have h4: "ex_stderr ?r = []" by code_simp
  have once: "map_of (ex_namespace ?r) ''x'' = Some (VList [VInt 1])" by code_simp
  have l: "last_line ?code = ''x.append(1)''" by code_simp
  have c: "calls s0 = []" by code_simp
  have twice: "map_of (ev_namespace (rt_eval mini (last_line ?code) (ex_namespace ?r)
                 (ex_world ?r))) ''x'' = Some (VList [VInt 1, VInt 1])"
    by code_simp
  have res: "fst (execute_python mini ?code False s0) = Inr ''Result: None''" by code_simp
  from last_line_evaluated_again [OF h1 h2 h3 h4] h2 h3 h4 once l c twice res
  show ?thesis by simp
qed

subsection \<open>Validation of the package identifier\<close>

lemma pkg_char_not_bracket: "pkg_char c \<Longrightarrow> c \<noteq> CHR ''[''"
  by (auto simp: pkg_char_def alnum_def in_range_def)

lemma alnum_pkg_char: "alnum c \<Longrightarrow> pkg_char c"
  by (simp add: pkg_char_def)

lemma re_match_package_no_bracket:
  assumes "re_match_package package"
  shows "CHR ''['' \<notin> set package"
proof (cases package)
  case Nil
  with assms show ?thesis by (simp add: re_match_package_def)
next
  case (Cons c cs)
  with assms have c: "alnum c"
    and cs: "list_all pkg_char cs \<or>
             (cs \<noteq> [] \<and> last cs = CHR ''\<newline>'' \<and> list_all pkg_char (butlast cs))"
    by (auto simp: re_match_package_def)
  from c have "c \<noteq> CHR ''[''"
    by (auto dest: alnum_pkg_char pkg_char_not_bracket)
  moreover have "CHR ''['' \<notin> set cs"
  proof
    assume mem: "CHR ''['' \<in> set cs"
    from cs show False
    proof
      assume "list_all pkg_char cs"
      with mem have "pkg_char (CHR ''['')" by (simp add: list_all_iff)
      then show False by (auto dest: pkg_char_not_bracket)
    next
      assume nl: "cs \<noteq> [] \<and> last cs = CHR ''\<newline>'' \<and> list_all pkg_char (butlast cs)"
      then have "cs = butlast cs @ [CHR ''\<newline>'']"
        by (metis append_butlast_last_id)
      with mem have "CHR ''['' \<in> set (butlast cs @ [CHR ''\<newline>''])" by simp
      then have "CHR ''['' \<in> set (butlast cs)" by simp
      with nl have "pkg_char (CHR ''['')" by (simp add: list_all_iff)
      then show False by (auto dest: pkg_char_not_bracket)
    qed
  qed
  ultimately show ?thesis by (simp add: Cons)
qed

text \<open>
  An identifier the pattern refuses is rejected with the state unchanged, so without a
  call into the runtime; an identifier it accepts is handed to the package manager.
\<close>

lemma install_package_rejects:
  "\<not> re_match_package package \<Longrightarrow>
   install_package rt package s = (Inr (''Invalid package name: '' @ package), s)"
  by (simp add: install_package_def)

lemma install_package_invokes:
  "re_match_package package \<Longrightarrow>
   \<exists>rest. calls (snd (install_package rt package s)) =
            calls s @ Run [''uv'', ''pip'', ''install'', package] # rest"
  by (auto simp: install_package_def py_run_def py_exec_def except_CalledProcessError_def
      Let_def split: prod.splits sum.splits option.splits py_exception.splits)

text \<open>
  What \<open>re.match\<close> accepts, in the words of the specification: an identifier of the
  described form, or one followed by a single newline.
\<close>

lemma re_match_package_iff:
  "re_match_package package \<longleftrightarrow>
     spec_package_pattern package \<or>
     (\<exists>q. package = q @ ''\<newline>'' \<and> spec_package_pattern q)"
proof (cases package)
  case Nil
  then show ?thesis by (simp add: re_match_package_def spec_package_pattern_def)
next
  case (Cons c cs)
  show ?thesis
  proof
    assume "re_match_package package"
    with Cons have c: "alnum c"
      and cs: "list_all pkg_char cs \<or>
               (cs \<noteq> [] \<and> last cs = CHR ''\<newline>'' \<and> list_all pkg_char (butlast cs))"
      by (auto simp: re_match_package_def)
    from cs show "spec_package_pattern package \<or>
        (\<exists>q. package = q @ ''\<newline>'' \<and> spec_package_pattern q)"
    proof
      assume "list_all pkg_char cs"
      with c Cons show ?thesis by (simp add: spec_package_pattern_def)
    next
      assume nl: "cs \<noteq> [] \<and> last cs = CHR ''\<newline>'' \<and> list_all pkg_char (butlast cs)"
      then have "cs = butlast cs @ ''\<newline>''"
        by (metis append_butlast_last_id)
      then have "package = (c # butlast cs) @ ''\<newline>''"
        using Cons by simp
      moreover from c nl have "spec_package_pattern (c # butlast cs)"
        by (simp add: spec_package_pattern_def)
      ultimately show ?thesis by blast
    qed
  next
    assume "spec_package_pattern package \<or>
        (\<exists>q. package = q @ ''\<newline>'' \<and> spec_package_pattern q)"
    then show "re_match_package package"
    proof
      assume "spec_package_pattern package"
      with Cons show ?thesis by (simp add: spec_package_pattern_def re_match_package_def)
    next
      assume "\<exists>q. package = q @ ''\<newline>'' \<and> spec_package_pattern q"
      then obtain q where q: "package = q @ ''\<newline>''" and sq: "spec_package_pattern q"
        by blast
      from sq obtain d ds where qd: "q = d # ds" and d: "alnum d" and ds: "list_all pkg_char ds"
        by (auto simp: spec_package_pattern_def split: list.splits)
      from q qd Cons have "c = d" and "cs = ds @ ''\<newline>''" by simp_all
      with d ds Cons show ?thesis by (simp add: re_match_package_def)
    qed
  qed
qed

text \<open>The two identifiers the specification names are rejected, whatever the runtime.\<close>

lemma install_package_rejects_examples:
  "install_package rt ''foo bar'' s = (Inr ''Invalid package name: foo bar'', s) \<and>
   install_package rt ''-rf'' s = (Inr ''Invalid package name: -rf'', s)"
proof -
  have "\<not> re_match_package ''foo bar''" by code_simp
  moreover have "\<not> re_match_package ''-rf''" by code_simp
  ultimately show ?thesis
    using install_package_rejects [of "''foo bar''" rt s] install_package_rejects [of "''-rf''" rt s]
    by simp
qed

text \<open>
  C5. The claim says that the package manager is invoked if and only if the identifier is
  one alphanumeric character followed by a run of alphanumerics, dots, underscores and
  hyphens. The code invokes it if and only if \<open>re.match\<close> succeeds (lemmas
  \<open>install_package_rejects\<close> and \<open>install_package_invokes\<close>), and \<open>re.match\<close> also succeeds when such an identifier is followed by one
  newline, because \<open>$\<close> matches before a final newline. So the identifier \<open>numpy\<close>
  followed by a newline does not have the form the claim describes, and yet
  \<open>install_package\<close> hands it to \<open>uv pip install\<close>, whatever the runtime and the state.
\<close>

theorem trailing_newline_reaches_package_manager:
  "\<not> spec_package_pattern ''numpy\<newline>'' \<and>
   (\<exists>rest. calls (snd (install_package rt ''numpy\<newline>'' s)) =
            calls s @ Run [''uv'', ''pip'', ''install'', ''numpy\<newline>''] # rest)"
proof -
  have n: "\<not> spec_package_pattern ''numpy\<newline>''" by code_simp
  have m: "re_match_package ''numpy\<newline>''" by code_simp
  from n install_package_invokes [OF m] show ?thesis by blast
qed

text \<open>
  C10. An identifier the validation accepts contains no \<open>[\<close>, so stripping the bracketed
  extras leaves it as it is, and the only calls \<open>install_package\<close> makes into the runtime
  are the installation of that identifier and the \<open>import\<close> of that identifier, character
  for character. An identifier with a \<open>[\<close> is rejected with the invalid-name text and
  the state unchanged: it reaches neither the installation nor the import.
\<close>

theorem accepted_identifier_has_no_extras:
  "(re_match_package package \<longrightarrow>
      CHR ''['' \<notin> set package \<and>
      hd (split (CHR ''['') package) = package \<and>
      set (calls (snd (install_package rt package s))) \<subseteq>
        set (calls s) \<union>
        {Run [''uv'', ''pip'', ''install'', package], Exec (''import '' @ package)}) \<and>
   (CHR ''['' \<in> set package \<longrightarrow>
      install_package rt package s = (Inr (''Invalid package name: '' @ package), s))"
proof (intro conjI impI)
  assume m: "re_match_package package"
  then show nb: "CHR ''['' \<notin> set package"
    by (rule re_match_package_no_bracket)
  then show h: "hd (split (CHR ''['') package) = package"
    by (simp add: split_no_sep)
  show "set (calls (snd (install_package rt package s))) \<subseteq>
        set (calls s) \<union>
        {Run [''uv'', ''pip'', ''install'', package], Exec (''import '' @ package)}"
    using m
    by (auto simp: install_package_def py_run_def py_exec_def except_CalledProcessError_def h
        Let_def split: prod.splits sum.splits option.splits py_exception.splits if_splits)
next
  assume "CHR ''['' \<in> set package"
  then have "\<not> re_match_package package"
    using re_match_package_no_bracket by blast
  then show "install_package rt package s = (Inr (''Invalid package name: '' @ package), s)"
    by (rule install_package_rejects)
qed

text \<open>
  \<open>numpy\<close> is accepted and imported under its own name; \<open>requests[security]\<close> is
  rejected.
\<close>

theorem accepted_identifier_has_no_extras_witness:
  "re_match_package ''numpy'' \<and>
   CHR ''['' \<notin> set ''numpy'' \<and>
   hd (split (CHR ''['') ''numpy'') = ''numpy'' \<and>
   calls (snd (install_package mini ''numpy'' s0)) =
     [Run [''uv'', ''pip'', ''install'', ''numpy''], Exec ''import numpy''] \<and>
   CHR ''['' \<in> set ''requests[security]'' \<and>
   install_package mini ''requests[security]'' s0 =
     (Inr ''Invalid package name: requests[security]'', s0)"
proof -
  have m: "re_match_package ''numpy''" by code_simp
  have c: "calls (snd (install_package mini ''numpy'' s0)) =
     [Run [''uv'', ''pip'', ''install'', ''numpy''], Exec ''import numpy'']" by code_simp
  have b: "CHR ''['' \<in> set ''requests[security]''" by simp
  from accepted_identifier_has_no_extras [of "''numpy''" mini s0] m
  have 1: "CHR ''['' \<notin> set ''numpy'' \<and> hd (split (CHR ''['') ''numpy'') = ''numpy''"
    by blast
  from accepted_identifier_has_no_extras [of "''requests[security]''" mini s0] b
  have 2: "install_package mini ''requests[security]'' s0 =
     (Inr (''Invalid package name: '' @ ''requests[security]''), s0)"
    by blast
  from m c b 1 2 show ?thesis by simp
qed

subsection \<open>What leaves a tool\<close>

text \<open>
  C4, as amended. \<open>execute_python\<close> returns a text whenever every fault of the call is an
  instance of \<open>Exception\<close>, and a fault of the call that is not one leaves the tool
  function. \<open>install_package\<close> returns a text whenever the fault of \<open>subprocess.run\<close>,
  if any, is a \<open>CalledProcessError\<close> and the fault of the \<open>import\<close>, if any, is an
  \<open>ImportError\<close> or a \<open>CalledProcessError\<close>; an invalid identifier and a non-zero
  exit status raise nothing and give a text too. When the package was installed and the
  \<open>import\<close> raises an \<open>ImportError\<close>, the text is the distinct
  \<open>Package installed but import failed\<close> message. Nothing is stated about
  \<open>list_variables\<close>, which has no handler.
\<close>

theorem tools_translate_failures:
  "(list_all is_Exception (faults rt code s) \<longrightarrow>
      (\<exists>text. fst (execute_python rt code reset s) = Inr text)) \<and>
   ((\<forall>e. launch_fault rt package s = Some e \<longrightarrow> is_CalledProcessError e) \<and>
    (\<forall>e. bind_fault rt package s = Some e \<longrightarrow> is_ImportError e \<or> is_CalledProcessError e) \<longrightarrow>
      (\<exists>text. fst (install_package rt package s) = Inr text)) \<and>
   (\<forall>msg. bind_fault rt package s = Some (ImportError msg) \<longrightarrow>
      fst (install_package rt package s) = Inr (''Package installed but import failed: '' @ msg)) \<and>
   (\<forall>e. e \<in> set (faults rt code s) \<and> \<not> is_Exception e \<longrightarrow>
      fst (execute_python rt code False s) = Inl e)"
proof (intro conjI impI allI)
  assume "list_all is_Exception (faults rt code s)"
  then show "\<exists>text. fst (execute_python rt code reset s) = Inr text"
    by (cases reset)
       (auto simp: faults_def execute_python_def except_Exception_def Let_def
          split: prod.splits option.splits sum.splits if_splits)
next
  assume a: "(\<forall>e. launch_fault rt package s = Some e \<longrightarrow> is_CalledProcessError e) \<and>
    (\<forall>e. bind_fault rt package s = Some e \<longrightarrow> is_ImportError e \<or> is_CalledProcessError e)"
  show "\<exists>text. fst (install_package rt package s) = Inr text"
  proof (cases "re_match_package package")
    case False
    then show ?thesis by (simp add: install_package_rejects)
  next
    case True
    obtain r s1 where run: "py_run rt [''uv'', ''pip'', ''install'', package] s = (r, s1)"
      by (cases "py_run rt [''uv'', ''pip'', ''install'', package] s")
    show ?thesis
    proof (cases r)
      case (Inl e)
      with a True run have "is_CalledProcessError e"
        by (simp add: launch_fault_def)
      then obtain err where "e = CalledProcessError err"
        by (cases e) simp_all
      with True run Inl show ?thesis
        by (simp add: install_package_def except_CalledProcessError_def)
    next
      case (Inr process)
      show ?thesis
      proof (cases "returncode process = 0")
        case False
        with True run Inr show ?thesis
          by (simp add: install_package_def)
      next
        case zero: True
        obtain r2 s2 where
          imp: "py_exec rt (''import '' @ hd (split (CHR ''['') package)) s1 = (r2, s2)"
          by (cases "py_exec rt (''import '' @ hd (split (CHR ''['') package)) s1")
        show ?thesis
        proof (cases "ex_raised r2")
          case None
          with True run Inr zero imp show ?thesis
            by (simp add: install_package_def)
        next
          case (Some e)
          with a True run Inr zero imp have "is_ImportError e \<or> is_CalledProcessError e"
            by (simp add: bind_fault_def)
          then have "(\<exists>msg. e = ImportError msg) \<or> (\<exists>err. e = CalledProcessError err)"
            by (cases e) simp_all
          with True run Inr zero imp Some show ?thesis
            by (auto simp: install_package_def except_CalledProcessError_def)
        qed
      qed
    qed
  qed
next
  fix msg
  assume "bind_fault rt package s = Some (ImportError msg)"
  then show "fst (install_package rt package s) =
      Inr (''Package installed but import failed: '' @ msg)"
    by (auto simp: bind_fault_def install_package_def
        split: if_splits prod.splits sum.splits)
next
  fix e
  assume a: "e \<in> set (faults rt code s) \<and> \<not> is_Exception e"
  then have nf: "\<not> is_fallback_fault e"
    by (cases e) simp_all
  obtain r s1 where ex: "py_exec rt code s = (r, s1)"
    by (cases "py_exec rt code s")
  then have fl: "faults rt code s =
      (case ex_raised r of
         Some e \<Rightarrow> [e]
       | None \<Rightarrow>
           if ex_stdout r = [] \<and> ex_stderr r = [] then
             (case fst (py_eval rt (last_line code) s1) of Inl e \<Rightarrow> [e] | Inr _ \<Rightarrow> [])
           else [])"
    by (simp add: faults_def)
  from a have mem: "e \<in> set (faults rt code s)" and ne: "\<not> is_Exception e"
    by simp_all
  show "fst (execute_python rt code False s) = Inl e"
  proof (cases "ex_raised r")
    case (Some e')
    with mem have "e' = e"
      by (simp add: fl)
    with ne ex Some show ?thesis
      by (simp add: execute_python_def except_Exception_def)
  next
    case None
    show ?thesis
    proof (cases "ex_stdout r = [] \<and> ex_stderr r = []")
      case False
      with mem None show ?thesis
        by (simp add: fl)
    next
      case True
      obtain v s2 where ev: "py_eval rt (last_line code) s1 = (v, s2)"
        by (cases "py_eval rt (last_line code) s1")
      with mem None True have "v = Inl e"
        by (cases v) (simp_all add: fl)
      with ne nf ex None True ev show ?thesis
        by (simp add: execute_python_def except_Exception_def)
    qed
  qed
qed

text \<open>
  An undefined name in \<open>execute_python\<close>; a distribution whose module has another name
  (\<open>beautifulsoup4\<close> installs \<open>bs4\<close>); a distribution the index does not have; a
  \<open>SystemExit\<close> raised after an assignment.
\<close>

theorem tools_translate_failures_witness:
  "list_all is_Exception (faults mini ''x'' s0) \<and>
   fst (execute_python mini ''x'' False s0) =
     Inr (''Error executing code:\<newline>'' @ rt_format_exc mini (name_error ''x'')) \<and>
   launch_fault mini ''beautifulsoup4'' s0 = None \<and>
   bind_fault mini ''beautifulsoup4'' s0 =
     Some (ImportError (''No module named '' @ quoted ''beautifulsoup4'')) \<and>
   fst (install_package mini ''beautifulsoup4'' s0) =
     Inr (''Package installed but import failed: No module named '' @ quoted ''beautifulsoup4'') \<and>
   launch_fault mini ''nosuchpackage'' s0 =
     Some (CalledProcessError ''error: No solution found when resolving dependencies'') \<and>
   fst (install_package mini ''nosuchpackage'' s0) =
     Inr ''Failed to install package:\<newline>error: No solution found when resolving dependencies'' \<and>
   faults mini ''x = 5\<newline>raise SystemExit'' s0 = [NonException ''SystemExit'' []] \<and>
   \<not> is_Exception (NonException ''SystemExit'' []) \<and>
   fst (execute_python mini ''x = 5\<newline>raise SystemExit'' False s0) =
     Inl (NonException ''SystemExit'' [])"
proof -
  have f: "list_all is_Exception (faults mini ''x'' s0)" by code_simp
  have e: "fst (execute_python mini ''x'' False s0) =
     Inr (''Error executing code:\<newline>'' @ rt_format_exc mini (name_error ''x''))"
    by code_simp
  have l: "launch_fault mini ''beautifulsoup4'' s0 = None" by code_simp
  have b: "bind_fault mini ''beautifulsoup4'' s0 =
     Some (ImportError (''No module named '' @ quoted ''beautifulsoup4''))" by code_simp
  have n: "launch_fault mini ''nosuchpackage'' s0 =
     Some (CalledProcessError ''error: No solution found when resolving dependencies'')"
    by code_simp
  have nr: "fst (install_package mini ''nosuchpackage'' s0) =
     Inr ''Failed to install package:\<newline>error: No solution found when resolving dependencies''"
    by code_simp
  have g: "faults mini ''x = 5\<newline>raise SystemExit'' s0 = [NonException ''SystemExit'' []]"
    by code_simp
  have ng: "\<not> is_Exception (NonException ''SystemExit'' [])" by simp
  from tools_translate_failures [of mini "''x = 5\<newline>raise SystemExit''" s0 False "''numpy''"] g
  have x: "fst (execute_python mini ''x = 5\<newline>raise SystemExit'' False s0) =
     Inl (NonException ''SystemExit'' [])"
    by simp
  from tools_translate_failures [of mini "''x''" s0 False "''beautifulsoup4''"] b
  have i: "fst (install_package mini ''beautifulsoup4'' s0) =
     Inr (''Package installed but import failed: '' @
          (''No module named '' @ quoted ''beautifulsoup4''))"
    by blast
  from f e l b i n nr g ng x show ?thesis by simp
qed

text \<open>
  C4 as stated fails: \<open>except Exception\<close> does not catch \<open>KeyboardInterrupt\<close>, which
  leaves \<open>execute_python\<close>.
\<close>

theorem KeyboardInterrupt_leaves_execute_python:
  "fst (execute_python mini ''raise KeyboardInterrupt'' False s0) =
     Inl (NonException ''KeyboardInterrupt'' [])"
  by code_simp

text \<open>
  Two faults that \<open>install_package\<close> has no handler for, outside the amended statement:
  the \<open>import\<close> of a hyphenated identifier is a syntax error, not an import error, and a
  missing \<open>uv\<close> makes \<open>subprocess.run\<close> raise \<open>FileNotFoundError\<close>. Both leave the
  tool function.
\<close>

lemma hyphenated_name_leaves_install_package:
  "re_match_package ''scikit-learn'' \<and>
   launch_fault mini ''scikit-learn'' s0 = None \<and>
   bind_fault mini ''scikit-learn'' s0 = Some (SyntaxError ''invalid syntax'') \<and>
   fst (install_package mini ''scikit-learn'' s0) = Inl (SyntaxError ''invalid syntax'')"
  by code_simp

lemma missing_uv_leaves_install_package:
  "fst (install_package mini ''numpy'' (s0\<lparr>world := \<lparr>uv_installed = False, modules = []\<rparr>\<rparr>)) =
     Inl (OtherException ''FileNotFoundError''
            (''[Errno 2] No such file or directory: '' @ quoted ''uv''))"
  by code_simp

subsection \<open>Listing the variables\<close>






end
